theory Spec2Isabelle
  imports Main
begin

section \<open>Values, errors and the data model\<close>

text \<open>
  The JavaScript values that reach the client as options. Numbers are the integers
  (seconds, sizes, counts: exactly representable), with \<open>NaN\<close> apart; the arrays that
  occur in options hold strings (room names, event names).
\<close>

datatype js_value =
    JUndefined
  | JNull
  | JBool bool
  | JNum int
  | JNaN
  | JStr string
  | JArr "string list"

text \<open>
  Every exception of \<open>Client.js\<close> is a \<open>TypeError\<close>. The message is the one the source
  writes; it is \<open>None\<close> where the engine raises the error (a property read on
  \<open>undefined\<close>, a call of something that is not a function) and words it itself.
\<close>

datatype error = TypeError "string option"

text \<open>
  Modelled from the spec: the User, Message and Room (channel) structures
  (\<open>structures/channels\<close> and the message and user classes are not among the sources).
  A user has an identifier; a message has an id, a content, a creation timestamp and an
  optional edit timestamp (milliseconds); a room has its identifier, a collection of
  users keyed by identifier and a message cache. The cache is optional because
  \<open>sweepMessages\<close> tests \<open>channel.messages\<close> before it uses it.
\<close>

record user =
  user_id :: string

record message =
  message_id :: string
  message_content :: string
  createdTimestamp :: int
  editedTimestamp :: "int option"

record channel =
  name :: string
  users :: "(string \<times> user) list"
  messages :: "message list option"

text \<open>An options object: its own keys, each with its value, in the order in which
  they were added.\<close>

type_synonym options = "(string \<times> js_value) list"

text \<open>
  The client instance. \<open>channels\<close> is the collection (keys in insertion order);
  \<open>get_overridden\<close> records whether the constructor has replaced the collection's
  \<open>get\<close> by the normalizing closure.
\<close>

record client =
  options :: options
  token :: js_value
  user :: js_value
  readyAt :: js_value
  autoLogEnd :: js_value
  channels :: "(string \<times> channel) list"
  get_overridden :: bool

section \<open>sweepMessages\<close>

text \<open>
  Modelled from the spec: the message cache's \<open>sweep(predicate)\<close> of the collection
  utility (\<open>utils/collection\<close> is not among the sources): a single pass over all
  entries that removes and counts those matching the predicate, and returns the count.
\<close>

definition sweep :: "('a \<Rightarrow> bool) \<Rightarrow> 'a list \<Rightarrow> 'a list \<times> int" where
  "sweep fn entries = (filter (\<lambda>e. \<not> fn e) entries, int (length (filter fn entries)))"

text \<open>What \<open>sweepMessages\<close> hands to \<open>logger.debug\<close>; the second is the template
  string with its three numbers (messages, lifetime, channels).\<close>

datatype log =
    DidntSweep
  | Swept int int int

text \<open>
  The loop over \<open>this.channels.values()\<close>: a channel without a cache is skipped;
  otherwise the channel counter goes up and the cache is swept with the predicate
  \<open>now - message.createdTimestamp > lifetimeMs\<close>. The last component counts the
  evaluations of the predicate (one per entry of a swept cache).
\<close>

fun sweepLoop ::
  "int \<Rightarrow> int \<Rightarrow> (string \<times> channel) list \<Rightarrow> int \<Rightarrow> int \<Rightarrow> nat
     \<Rightarrow> (string \<times> channel) list \<times> int \<times> int \<times> nat" where
  "sweepLoop now lifetimeMs [] nchannels nmessages evals = ([], nchannels, nmessages, evals)"
| "sweepLoop now lifetimeMs ((key, ch) # rest) nchannels nmessages evals =
     (case messages ch of
        None \<Rightarrow>
          (case sweepLoop now lifetimeMs rest nchannels nmessages evals of
             (rest', c', m', e') \<Rightarrow> ((key, ch) # rest', c', m', e'))
      | Some cache \<Rightarrow>
          (case sweep (\<lambda>message. now - createdTimestamp message > lifetimeMs) cache of
             (kept, removed) \<Rightarrow>
               (case sweepLoop now lifetimeMs rest (nchannels + 1) (nmessages + removed)
                       (evals + length cache) of
                  (rest', c', m', e') \<Rightarrow>
                    ((key, ch\<lparr>messages := Some kept\<rparr>) # rest', c', m', e'))))"

record sweep_result =
  returned :: int
  swept_client :: client
  logged :: "log list"
  evaluated :: nat

text \<open>
  \<open>sweepMessages(lifetime)\<close> with \<open>now = Date.now()\<close>. The lifetime is a number
  (seconds), so the guard \<open>typeof lifetime !== 'number' || isNaN(lifetime)\<close> is false.
\<close>

definition sweepMessages :: "client \<Rightarrow> int \<Rightarrow> int \<Rightarrow> sweep_result" where
  "sweepMessages this now lifetime =
     (if lifetime \<le> 0 then
        \<lparr>returned = - 1, swept_client = this, logged = [DidntSweep], evaluated = 0\<rparr>
      else
        (let lifetimeMs = lifetime * 1000 in
         case sweepLoop now lifetimeMs (channels this) 0 0 0 of
           (store, nchannels, nmessages, evals) \<Rightarrow>
             \<lparr>returned = nmessages,
              swept_client = this\<lparr>channels := store\<rparr>,
              logged = [Swept nmessages lifetime nchannels],
              evaluated = evals\<rparr>))"

text \<open>
  In the spec's words: the effective timestamp of a message is its edit timestamp when
  present, else its creation timestamp.
\<close>

definition effectiveTimestamp :: "message \<Rightarrow> int" where
  "effectiveTimestamp m = (case editedTimestamp m of Some e \<Rightarrow> e | None \<Rightarrow> createdTimestamp m)"

text \<open>The cached messages of a store, and their number.\<close>

definition cached :: "(string \<times> channel) list \<Rightarrow> message list" where
  "cached store = concat (map (\<lambda>(key, ch). case messages ch of None \<Rightarrow> [] | Some cache \<Rightarrow> cache) store)"


section \<open>JavaScript strings and the collection\<close>

text \<open>\<open>s.indexOf(c)\<close>: the first position of \<open>c\<close>, or \<open>-1\<close>.\<close>

fun indexOf :: "string \<Rightarrow> char \<Rightarrow> int" where
  "indexOf [] c = - 1"
| "indexOf (x # xs) c =
     (if x = c then 0 else (if indexOf xs c < 0 then - 1 else indexOf xs c + 1))"

text \<open>\<open>s.slice(0, end)\<close>: a negative \<open>end\<close> counts from the end of the string.\<close>

definition slice0 :: "string \<Rightarrow> int \<Rightarrow> string" where
  "slice0 s e = (if e < 0 then take (nat (int (length s) + e)) s else take (nat e) s)"

text \<open>The constructor's and the lookup's prefix enforcement:
  \<open>if (channelName.slice(0, 1) !== '#') channelName = '#' + channelName\<close>.\<close>

definition normalizeName :: "string \<Rightarrow> string" where
  "normalizeName channelName =
     (if slice0 channelName 1 \<noteq> ''#'' then ''#'' @ channelName else channelName)"

text \<open>
  Modelled from the spec: the generic ordered key-value collection
  (\<open>utils/collection\<close> is not among the sources). \<open>set\<close> replaces the value of a key
  that is present and appends a new key otherwise; \<open>find\<close> returns the first value, in
  insertion order, that satisfies the function, and a not-found indicator when there is
  none; the default \<open>get\<close> looks the key up as it is given.
\<close>

fun collection_set :: "('k \<times> 'v) list \<Rightarrow> 'k \<Rightarrow> 'v \<Rightarrow> ('k \<times> 'v) list" where
  "collection_set [] key v = [(key, v)]"
| "collection_set ((k, w) # rest) key v =
     (if k = key then (k, v) # rest else (k, w) # collection_set rest key v)"

fun collection_find :: "('v \<Rightarrow> bool) \<Rightarrow> ('k \<times> 'v) list \<Rightarrow> 'v option" where
  "collection_find fn [] = None"
| "collection_find fn ((k, v) # rest) = (if fn v then Some v else collection_find fn rest)"

definition collection_get :: "('k \<times> 'v) list \<Rightarrow> 'k \<Rightarrow> 'v option" where
  "collection_get store key = map_of store key"

text \<open>
  Modelled from the spec: \<open>new channel(client, {channel: channelName})\<close> (the class is not
  among the sources) makes the room of that identifier, with no users and an empty
  message cache.
\<close>

definition new_channel :: "string \<Rightarrow> channel" where
  "new_channel channelName = \<lparr>name = channelName, users = [], messages = Some []\<rparr>"

text \<open>
  \<open>this.channels.get(x)\<close>, where \<open>x\<close> is a string or \<open>undefined\<close> (\<open>None\<close>). Once the
  constructor has replaced it, \<open>get\<close> enforces the prefix and searches by the channel's
  name, and \<open>undefined.slice\<close> raises; before that it is the collection's keyed lookup.
\<close>

definition channels_get :: "client \<Rightarrow> string option \<Rightarrow> error + channel option" where
  "channels_get this x =
     (if get_overridden this then
        (case x of
           None \<Rightarrow> Inl (TypeError None)
         | Some channelName \<Rightarrow>
             Inr (collection_find (\<lambda>channel. name channel = normalizeName channelName)
                    (channels this)))
      else
        (case x of
           None \<Rightarrow> Inr None
         | Some key \<Rightarrow> Inr (collection_get (channels this) key)))"

section \<open>eventEmmiter\<close>

text \<open>
  A parsed protocol line, as the session manager hands it over: \<open>tags\<close>, \<open>prefix\<close>,
  \<open>command\<close>, \<open>params\<close>.
\<close>

record frame =
  tags :: "(string \<times> string) list"
  prefix :: string
  command :: string
  params :: "string list"

datatype arg = Frame frame | Value js_value

text \<open>\<open>args[i]\<close> and \<open>params[i]\<close>: \<open>undefined\<close> out of range.\<close>

definition arg_at :: "arg list \<Rightarrow> nat \<Rightarrow> arg" where
  "arg_at args i = (if i < length args then args ! i else Value JUndefined)"

definition param_at :: "string list \<Rightarrow> nat \<Rightarrow> string option" where
  "param_at ps i = (if i < length ps then Some (ps ! i) else None)"

text \<open>
  The payload of a \<open>message\<close> event. \<open>reply\<close> holds what the closure binds: the id tag
  and the room parameter it passes to \<open>replyMessage\<close>.
\<close>

record responseMessage =
  content :: string
  reply :: "string option \<times> string option"
  msg_id :: "string option"
  msg_channel :: "channel option"
  author :: "user option"

definition toString :: "responseMessage \<Rightarrow> string" where
  "toString this = content this"

datatype emitted =
    EmitMessage responseMessage
  | EmitReady arg arg
  | EmitDefault string "arg list"

text \<open>
  \<open>eventEmmiter(event, ...args)\<close>. The object literal is evaluated field by field:
  \<open>args[0].params[1].toString()\<close> raises when \<open>args[0]\<close> is no frame or has no second
  parameter; \<open>channel\<close> is the lookup's result, found or not; \<open>author\<close> looks the room up
  again and reads \<open>.users\<close> of the result, which raises when the result is \<open>undefined\<close>.
  The value returned is what \<open>this.emit\<close> is called with; what the emitter then does
  with it (the listeners it calls, and its own error for an \<open>error\<close> event that nobody
  listens to) is not part of this function.
\<close>

definition eventEmmiter :: "client \<Rightarrow> string \<Rightarrow> arg list \<Rightarrow> error + emitted" where
  "eventEmmiter this event args =
     (if event = ''message'' then
        (case arg_at args 0 of
           Value v \<Rightarrow> Inl (TypeError None)
         | Frame f \<Rightarrow>
             (case param_at (params f) 1 of
                None \<Rightarrow> Inl (TypeError None)
              | Some text \<Rightarrow>
                  (case channels_get this (param_at (params f) 0) of
                     Inl e \<Rightarrow> Inl e
                   | Inr ch \<Rightarrow>
                       (case channels_get this (param_at (params f) 0) of
                          Inl e \<Rightarrow> Inl e
                        | Inr None \<Rightarrow> Inl (TypeError None)
                        | Inr (Some room) \<Rightarrow>
                            Inr (EmitMessage
                              \<lparr>content = text,
                               reply = (map_of (tags f) ''id'', param_at (params f) 0),
                               msg_id = map_of (tags f) ''id'',
                               msg_channel = ch,
                               author = collection_get (users room)
                                 (slice0 (prefix f) (indexOf (prefix f) CHR ''!''))\<rparr>)))))
      else if event = ''ready'' then Inr (EmitReady (arg_at args 0) (arg_at args 1))
      else Inr (EmitDefault event args))"

section \<open>Options and their validation\<close>

text \<open>\<open>obj[key]\<close> for an own key: \<open>undefined\<close> when the key is absent.\<close>

definition property :: "options \<Rightarrow> string \<Rightarrow> js_value" where
  "property obj key = (case map_of obj key of None \<Rightarrow> JUndefined | Some v \<Rightarrow> v)"

text \<open>
  \<open>Object.keys(obj)\<close> lists the keys that are array indices first, in ascending numeric
  order, and then the other keys in insertion order. A key is an array index when it is
  the canonical decimal numeral (no sign, no leading zero) of an integer up to
  \<open>2^32 - 2\<close>.
\<close>

definition digit :: "char \<Rightarrow> int option" where
  "digit c =
     map_of [(CHR ''0'', 0), (CHR ''1'', 1), (CHR ''2'', 2), (CHR ''3'', 3), (CHR ''4'', 4),
             (CHR ''5'', 5), (CHR ''6'', 6), (CHR ''7'', 7), (CHR ''8'', 8), (CHR ''9'', 9)] c"

fun numeral_value :: "string \<Rightarrow> int \<Rightarrow> int option" where
  "numeral_value [] n = Some n"
| "numeral_value (c # cs) n =
     (case digit c of None \<Rightarrow> None | Some d \<Rightarrow> numeral_value cs (10 * n + d))"

definition index_of_key :: "string \<Rightarrow> int option" where
  "index_of_key k =
     (case k of
        [] \<Rightarrow> None
      | c # cs \<Rightarrow>
          if c = CHR ''0'' \<and> cs \<noteq> [] then None
          else (case numeral_value k 0 of
                  None \<Rightarrow> None
                | Some n \<Rightarrow> if n \<le> 4294967294 then Some n else None))"

definition keys :: "options \<Rightarrow> string list" where
  "keys obj =
     sort_key (\<lambda>k. case index_of_key k of None \<Rightarrow> 0 | Some n \<Rightarrow> n)
       (filter (\<lambda>k. index_of_key k \<noteq> None) (map fst obj))
     @ filter (\<lambda>k. index_of_key k = None) (map fst obj)"

text \<open>Truthiness, as \<open>&&\<close> and \<open>if\<close> test it.\<close>

fun truthy :: "js_value \<Rightarrow> bool" where
  "truthy JUndefined = False"
| "truthy JNull = False"
| "truthy (JBool b) = b"
| "truthy (JNum n) = (n \<noteq> 0)"
| "truthy JNaN = False"
| "truthy (JStr s) = (s \<noteq> [])"
| "truthy (JArr xs) = True"

text \<open>\<open>typeof v === 'number' && !isNaN(v)\<close>, \<open>typeof v === 'boolean'\<close>,
  \<open>v instanceof Array\<close>, and \<open>v.length > 0\<close> for a truthy \<open>v\<close> (numbers and booleans
  have no length, and \<open>undefined > 0\<close> is false).\<close>

fun is_number :: "js_value \<Rightarrow> bool" where
  "is_number (JNum n) = True"
| "is_number v = False"

fun is_boolean :: "js_value \<Rightarrow> bool" where
  "is_boolean (JBool b) = True"
| "is_boolean v = False"

fun is_array :: "js_value \<Rightarrow> bool" where
  "is_array (JArr xs) = True"
| "is_array v = False"

fun length_positive :: "js_value \<Rightarrow> bool" where
  "length_positive (JStr s) = (0 < length s)"
| "length_positive (JArr xs) = (0 < length xs)"
| "length_positive v = False"

text \<open>What the constructor and the validation do besides computing: the calls of the
  logger, of \<open>autoEndLog.activate\<close> and of the session manager's constructor, in order.\<close>

datatype effect =
    LoggerCreated js_value
  | LogDebug string
  | LogWarn string
  | AutoEndLogActivate
  | SLEEPTManagerCreated

text \<open>
  \<open>_validateOptions(options)\<close>, with \<open>constants.defaultOptions\<close> (not among the sources)
  as a parameter. The checks run in the source's order and the first that fails throws;
  the last one walks \<open>Object.keys(options)\<close> and throws at the first key that the
  defaults do not have, after calling \<open>autoEndLog.activate()\<close>.
\<close>

definition validateOptions :: "options \<Rightarrow> options \<Rightarrow> effect list \<times> (error + unit)" where
  "validateOptions defaultOptions opts =
     (if \<not> is_number (property opts ''messageCacheMaxSize'') then
        ([], Inl (TypeError (Some ''The messageMaxSize option must be a number.'')))
      else if \<not> is_number (property opts ''messageCacheLifetime'') then
        ([], Inl (TypeError (Some ''The messageCacheLifetime option must be a number.'')))
      else if \<not> is_number (property opts ''messageSweepInterval'') then
        ([], Inl (TypeError (Some ''The messageSweepInterval option must be a number.'')))
      else if \<not> is_boolean (property opts ''fetchAllChatters'') then
        ([], Inl (TypeError (Some ''The fetchAllChatters option must be a boolean.'')))
      else if truthy (property opts ''disabledEvents'') \<and> \<not> is_array (property opts ''disabledEvents'') then
        ([], Inl (TypeError (Some ''The disabledEvents option must be an Array.'')))
      else if \<not> is_number (property opts ''retryLimit'') then
        ([], Inl (TypeError (Some ''The retryLimit  options must be a number.'')))
      else if truthy (property opts ''autoLogEnd'') \<and> \<not> is_boolean (property opts ''autoLogEnd'') then
        ([], Inl (TypeError (Some ''The autoLogEnd options must be a boolean.'')))
      else if truthy (property opts ''channels'') \<and> \<not> is_array (property opts ''channels'') then
        ([], Inl (TypeError (Some ''The channels options must be a array.'')))
      else if truthy (property opts ''debug'') \<and> \<not> is_boolean (property opts ''debug'') then
        ([], Inl (TypeError (Some ''The debug options must be a boolean.'')))
      else if truthy (property opts ''connectedChannels'') \<and> \<not> is_array (property opts ''channels'')
              \<and> length_positive (property opts ''connectedChannels'') then
        ([], Inl (TypeError
               (Some ''The connectedChannels options must be a array and must be empty.'')))
      else
        (case find (\<lambda>OptionName. OptionName \<notin> set (keys defaultOptions)) (keys opts) of
           None \<Rightarrow> ([], Inr ())
         | Some OptionName \<Rightarrow>
             ([AutoEndLogActivate],
              Inl (TypeError (Some (''The option: '' @ OptionName @ '' is not a valid option.''))))))"

section \<open>The constructor\<close>

text \<open>
  The \<open>forEach\<close> over \<open>options.channels\<close>: each name gets its prefix, the room is stored
  under it, and \<open>this.channels.get\<close> is assigned the normalizing closure (so the flag is
  set in the loop's body, and only there).
\<close>

fun initChannels ::
  "string list \<Rightarrow> (string \<times> channel) list \<times> bool \<Rightarrow> (string \<times> channel) list \<times> bool" where
  "initChannels [] st = st"
| "initChannels (channelName # rest) (store, overridden) =
     initChannels rest
       (collection_set store (normalizeName channelName) (new_channel (normalizeName channelName)),
        True)"

text \<open>
  \<open>new Client(options)\<close>. \<open>Util.mergeDefault\<close> and \<open>constants.defaultOptions\<close> are not
  among the sources and are parameters: \<open>mergeDefault def given\<close> gives the object it
  returns (\<open>this.options\<close>) and the object \<open>given\<close> as the call leaves it, which the
  constructor keeps reading as \<open>options\<close>. \<open>env\<close> is \<open>process.env\<close>.
  After \<open>Object.defineProperty(this, 'token', { writable: true })\<close> the token is
  \<open>undefined\<close>. \<open>options.channels.forEach\<close> raises unless \<open>options.channels\<close> is an
  array. The constructors of the logger, the collection, the channel and the session
  manager are taken to return; the sweep timer (\<open>setInterval\<close>) runs outside the
  constructed state and is left out.
\<close>

definition Client_constructor ::
  "(options \<Rightarrow> options \<Rightarrow> options \<times> options) \<Rightarrow> options \<Rightarrow> (string \<times> string) list \<Rightarrow> options
     \<Rightarrow> effect list \<times> (error + client)" where
  "Client_constructor mergeDefault defaultOptions env given =
     (case mergeDefault defaultOptions given of
        (this_options, opts) \<Rightarrow>
          (case validateOptions defaultOptions this_options of
             (es, Inl e) \<Rightarrow> (es, Inl e)
           | (es, Inr u) \<Rightarrow>
               (let es1 = es @ [LoggerCreated (property this_options ''debug''),
                                LogDebug ''Debug is active!''];
                    this_token = JUndefined;
                    this_token' =
                      (if \<not> truthy this_token then
                         (case map_of env ''CLIENT_TOKEN'' of
                            Some v \<Rightarrow> JStr v
                          | None \<Rightarrow> JNull)
                       else JNull);
                    this_autoLogEnd = property opts ''autoLogEnd'';
                    es2 = es1
                      @ (if truthy (property this_options ''debug'') \<and> truthy this_autoLogEnd
                         then [LogWarn ''AutoLogEnd disabled because debug is enabled'']
                         else [])
                      @ (if truthy this_autoLogEnd \<and> \<not> truthy (property this_options ''debug'')
                         then [AutoEndLogActivate]
                         else [])
                in (case property opts ''channels'' of
                      JArr names \<Rightarrow>
                        (case initChannels names ([], False) of
                           (store, overridden) \<Rightarrow>
                             (es2 @ [SLEEPTManagerCreated],
                              Inr \<lparr>options = this_options,
                                   token = this_token',
                                   user = JNull,
                                   readyAt = JNull,
                                   autoLogEnd = this_autoLogEnd,
                                   channels = store,
                                   get_overridden = overridden\<rparr>))
                    | v \<Rightarrow> (es2, Inl (TypeError None))))))"

text \<open>
  What the theorems ask of \<open>mergeDefault\<close>: every key of the given object is a key of
  the merged one, and both the merged object and the given object, as the call leaves
  it, still hold the given value under it.
\<close>

definition keeps_given ::
  "(options \<Rightarrow> options \<Rightarrow> options \<times> options) \<Rightarrow> options \<Rightarrow> options \<Rightarrow> bool" where
  "keeps_given mergeDefault defaultOptions given =
     (case mergeDefault defaultOptions given of
        (merged, given') \<Rightarrow>
          list_all (\<lambda>k. k \<in> set (keys merged) \<and> property merged k = property given k
                          \<and> property given' k = property given k) (keys given))"

text \<open>
  A merge that behaves so, for the examples: the given object, completed in place with
  the default of every key it lacks.
\<close>

definition fillDefaults :: "options \<Rightarrow> options \<Rightarrow> options \<times> options" where
  "fillDefaults def given =
     (let merged = given @ filter (\<lambda>(k, v). k \<notin> set (keys given)) def in (merged, merged))"

section \<open>The claims' words\<close>

text \<open>
  The configuration values the spec calls invalid: a non-numeric
  \<open>messageCacheLifetime\<close>, \<open>messageCacheMaxSize\<close>, \<open>messageSweepInterval\<close> or
  \<open>retryLimit\<close>, a non-boolean \<open>fetchAllChatters\<close>, a non-array \<open>disabledEvents\<close> or
  \<open>channels\<close>.
\<close>

definition claimed_invalid :: "string \<Rightarrow> js_value \<Rightarrow> bool" where
  "claimed_invalid k v =
     ((k \<in> set [''messageCacheLifetime'', ''messageCacheMaxSize'', ''messageSweepInterval'',
                ''retryLimit'']
         \<and> \<not> is_number v)
      \<or> (k = ''fetchAllChatters'' \<and> \<not> is_boolean v)
      \<or> (k \<in> set [''disabledEvents'', ''channels''] \<and> \<not> is_array v))"

text \<open>The same, with a \<open>disabledEvents\<close> that is invalid only when it is truthy.\<close>

definition invalid :: "string \<Rightarrow> js_value \<Rightarrow> bool" where
  "invalid k v =
     ((k \<in> set [''messageCacheLifetime'', ''messageCacheMaxSize'', ''messageSweepInterval'',
                ''retryLimit'']
         \<and> \<not> is_number v)
      \<or> (k = ''fetchAllChatters'' \<and> \<not> is_boolean v)
      \<or> (k = ''disabledEvents'' \<and> truthy v \<and> \<not> is_array v)
      \<or> (k = ''channels'' \<and> \<not> is_array v))"

text \<open>All recognized options are valid: none of the checks on a named option fails.\<close>

definition recognized_valid :: "options \<Rightarrow> bool" where
  "recognized_valid opts =
     (is_number (property opts ''messageCacheMaxSize'')
      \<and> is_number (property opts ''messageCacheLifetime'')
      \<and> is_number (property opts ''messageSweepInterval'')
      \<and> is_boolean (property opts ''fetchAllChatters'')
      \<and> \<not> (truthy (property opts ''disabledEvents'') \<and> \<not> is_array (property opts ''disabledEvents''))
      \<and> is_number (property opts ''retryLimit'')
      \<and> \<not> (truthy (property opts ''autoLogEnd'') \<and> \<not> is_boolean (property opts ''autoLogEnd''))
      \<and> \<not> (truthy (property opts ''channels'') \<and> \<not> is_array (property opts ''channels''))
      \<and> \<not> (truthy (property opts ''debug'') \<and> \<not> is_boolean (property opts ''debug''))
      \<and> \<not> (truthy (property opts ''connectedChannels'') \<and> \<not> is_array (property opts ''channels'')
             \<and> length_positive (property opts ''connectedChannels'')))"

section \<open>Example data\<close>

text \<open>A default option set with the ten options the validation names.\<close>

definition exampleDefaults :: options where
  "exampleDefaults =
     [(''autoLogEnd'', JBool True), (''channels'', JArr []), (''debug'', JBool False),
      (''connectedChannels'', JArr []), (''messageCacheMaxSize'', JNum 200),
      (''messageCacheLifetime'', JNum 0), (''messageSweepInterval'', JNum 0),
      (''fetchAllChatters'', JBool False), (''disabledEvents'', JArr []),
      (''retryLimit'', JNum 5)]"

text \<open>Every option given and valid, but for \<open>disabledEvents: false\<close>.\<close>

definition falsyEvents :: options where
  "falsyEvents =
     [(''autoLogEnd'', JBool False), (''channels'', JArr [''room'']), (''debug'', JBool False),
      (''connectedChannels'', JArr []), (''messageCacheMaxSize'', JNum 200),
      (''messageCacheLifetime'', JNum 0), (''messageSweepInterval'', JNum 0),
      (''fetchAllChatters'', JBool False), (''disabledEvents'', JBool False),
      (''retryLimit'', JNum 5)]"

text \<open>Every option given and valid, with the one room \<open>##x\<close>, and the client that the
  constructor makes of it.\<close>

definition doubledOptions :: options where
  "doubledOptions =
     [(''autoLogEnd'', JBool False), (''channels'', JArr [''##x'']), (''debug'', JBool False),
      (''connectedChannels'', JArr []), (''messageCacheMaxSize'', JNum 200),
      (''messageCacheLifetime'', JNum 0), (''messageSweepInterval'', JNum 0),
      (''fetchAllChatters'', JBool False), (''disabledEvents'', JArr []),
      (''retryLimit'', JNum 5)]"

definition doubledClient :: client where
  "doubledClient =
     \<lparr>options = doubledOptions, token = JNull, user = JNull, readyAt = JNull,
      autoLogEnd = JBool False, channels = [(''##x'', new_channel ''##x'')],
      get_overridden = True\<rparr>"

text \<open>Options with keys that the defaults do not have: two of them; one beside a
  \<open>retryLimit\<close> that is no number; one beside a key that is an array index.\<close>

definition twoUnknown :: options where
  "twoUnknown =
     [(''channels'', JArr [''room'']), (''aaa'', JNum 1), (''tokn'', JStr ''oauth:abc'')]"

definition unknownAndInvalid :: options where
  "unknownAndInvalid =
     [(''channels'', JArr [''room'']), (''tokn'', JStr ''oauth:abc''), (''retryLimit'', JStr ''x'')]"

definition unknownAndIndex :: options where
  "unknownAndIndex =
     [(''channels'', JArr [''room'']), (''tokn'', JStr ''oauth:abc''), (''7'', JNum 1)]"

definition alice :: user where
  "alice = \<lparr>user_id = ''alice''\<rparr>"

definition oldMessage :: message where
  "oldMessage = \<lparr>message_id = ''m1'', message_content = ''first'',
                 createdTimestamp = 1000, editedTimestamp = None\<rparr>"

definition newMessage :: message where
  "newMessage = \<lparr>message_id = ''m2'', message_content = ''second'',
                 createdTimestamp = 58000, editedTimestamp = None\<rparr>"

text \<open>Created at 40000 ms and edited at 50000 ms.\<close>

definition revisedMessage :: message where
  "revisedMessage = \<lparr>message_id = ''m4'', message_content = ''third (edited)'',
                     createdTimestamp = 40000, editedTimestamp = Some 50000\<rparr>"


text \<open>Created at 0 ms and edited at 9000 ms.\<close>

definition editedMessage :: message where
  "editedMessage = \<lparr>message_id = ''m3'', message_content = ''hello'',
                    createdTimestamp = 0, editedTimestamp = Some 9000\<rparr>"

text \<open>A client with the room \<open>#room\<close>, where alice is, and a room without a cache.\<close>

definition roomClient :: client where
  "roomClient =
     \<lparr>options = exampleDefaults, token = JNull, user = JNull, readyAt = JNull,
      autoLogEnd = JBool True,
      channels =
        [(''#room'', \<lparr>name = ''#room'', users = [(''alice'', alice)],
                     messages = Some [oldMessage, newMessage, revisedMessage]\<rparr>),
         (''#quiet'', \<lparr>name = ''#quiet'', users = [], messages = None\<rparr>)],
      get_overridden = True\<rparr>"

definition editedClient :: client where
  "editedClient =
     \<lparr>options = exampleDefaults, token = JNull, user = JNull, readyAt = JNull,
      autoLogEnd = JBool True,
      channels = [(''#room'', \<lparr>name = ''#room'', users = [], messages = Some [editedMessage]\<rparr>)],
      get_overridden = True\<rparr>"




definition helloFrame :: frame where
  "helloFrame =
     \<lparr>tags = [(''id'', ''abc-1'')], prefix = ''alice!alice@alice.tmi.twitch.tv'',
      command = ''PRIVMSG'', params = [''#room'', ''hello'']\<rparr>"

definition strayFrame :: frame where
  "strayFrame =
     \<lparr>tags = [(''id'', ''abc-2'')], prefix = ''bob!bob@bob.tmi.twitch.tv'',
      command = ''PRIVMSG'', params = [''#left'', ''anyone here?'']\<rparr>"

section \<open>Properties of sweepMessages\<close>




text \<open>
  C2 (the code departs from it): the sweep should judge a message by its edit timestamp
  when it has one. The source's predicate reads \<open>createdTimestamp\<close> only, against its own
  comment. A message created at 0 ms and edited at 9000 ms is, at 10000 ms and with a
  lifetime of 5 s, 1000 ms old by its effective timestamp, and the sweep removes it.
\<close>

theorem sweepMessages_ignores_edit:
  "10000 - effectiveTimestamp editedMessage \<le> 5 * 1000
   \<and> cached (channels (swept_client (sweepMessages editedClient 10000 5))) = []
   \<and> returned (sweepMessages editedClient 10000 5) = 1"
  by (simp add: sweepMessages_def editedClient_def editedMessage_def effectiveTimestamp_def
        Let_def sweep_def cached_def)

text \<open>
  C3: for every lifetime \<open>L \<le> 0\<close>, \<open>sweepMessages(L)\<close> returns the sentinel \<open>-1\<close>, leaves
  the client and with it every cache as it was, and never evaluates the removal
  predicate.
\<close>

theorem sweepMessages_unlimited:
  assumes "lifetime \<le> 0"
  shows "returned (sweepMessages this now lifetime) = - 1
       \<and> swept_client (sweepMessages this now lifetime) = this
       \<and> evaluated (sweepMessages this now lifetime) = 0"
  using assms by (simp add: sweepMessages_def)

theorem sweepMessages_unlimited_witness:
  "returned (sweepMessages roomClient 60000 0) = - 1
   \<and> swept_client (sweepMessages roomClient 60000 0) = roomClient
   \<and> evaluated (sweepMessages roomClient 60000 0) = 0
   \<and> cached (channels (swept_client (sweepMessages roomClient 60000 0)))
       = [oldMessage, newMessage, revisedMessage]
   \<and> returned (sweepMessages roomClient 60000 (- 5)) = - 1
   \<and> swept_client (sweepMessages roomClient 60000 (- 5)) = roomClient"
  using sweepMessages_unlimited [of 0 roomClient 60000]
    sweepMessages_unlimited [of "- 5" roomClient 60000]
  by (simp add: roomClient_def cached_def)





section \<open>Properties of eventEmmiter\<close>

lemma indexOf_first: "c \<notin> set a \<Longrightarrow> indexOf (a @ c # rest) c = int (length a)"
  by (induction a) auto

lemma slice0_indexOf: "c \<notin> set a \<Longrightarrow> slice0 (a @ c # rest) (indexOf (a @ c # rest) c) = a"
  by (simp add: indexOf_first slice0_def)

text \<open>Whatever the client and the frame: when the frame has its text and the lookup of
  its room finds nothing, building the payload raises.\<close>

lemma eventEmmiter_no_room:
  assumes "param_at (params f) 1 = Some t"
    and "channels_get this (param_at (params f) 0) = Inr None"
  shows "eventEmmiter this ''message'' (Frame f # others) = Inl (TypeError None)"
  using assms by (simp add: eventEmmiter_def arg_at_def)

text \<open>
  C1 (the code departs from it): a chat frame for a room that is not in the channel
  store should be dropped or logged without an exception. The \<open>author\<close> field reads
  \<open>.users\<close> of the lookup's result with no test of it: for the frame of \<open>#left\<close>, a room
  the client does not hold, the lookup finds nothing and \<open>eventEmmiter\<close> raises a
  \<open>TypeError\<close> instead of emitting.
\<close>

theorem eventEmmiter_unknown_room:
  "channels_get roomClient (Some ''#left'') = Inr None
   \<and> eventEmmiter roomClient ''message'' [Frame strayFrame] = Inl (TypeError None)"
  by (simp add: eventEmmiter_def arg_at_def param_at_def channels_get_def roomClient_def
        strayFrame_def normalizeName_def slice0_def)

text \<open>
  The payload of a chat frame of a known room, with the text \<open>t\<close> as its second parameter
  and a prefix whose login, before the first \<open>!\<close>, is \<open>a\<close>: the content and \<open>toString()\<close>
  are \<open>t\<close>, the id is the frame's \<open>id\<close> tag, the channel is the room, and the author is
  what the room's user collection holds under \<open>a\<close>, which may be nothing.
\<close>

lemma eventEmmiter_message:
  assumes "channels_get this (Some room) = Inr (Some ch)"
    and "params f = [room, t]"
    and "prefix f = a @ CHR ''!'' # host"
    and "CHR ''!'' \<notin> set a"
  shows "\<exists>m. eventEmmiter this ''message'' (Frame f # others) = Inr (EmitMessage m)
           \<and> content m = t \<and> toString m = t
           \<and> msg_id m = map_of (tags f) ''id''
           \<and> msg_channel m = Some ch
           \<and> author m = collection_get (users ch) a"
  using assms
  by (simp add: eventEmmiter_def arg_at_def param_at_def toString_def slice0_indexOf)

lemma eventEmmiter_message_hello:
  "eventEmmiter roomClient ''message'' [Frame helloFrame] =
     Inr (EmitMessage
       \<lparr>content = ''hello'', reply = (Some ''abc-1'', Some ''#room''), msg_id = Some ''abc-1'',
        msg_channel = Some \<lparr>name = ''#room'', users = [(''alice'', alice)],
                              messages = Some [oldMessage, newMessage, revisedMessage]\<rparr>,
        author = Some alice\<rparr>)"
  using eventEmmiter_message [of roomClient "''#room''"
      "\<lparr>name = ''#room'', users = [(''alice'', alice)],
        messages = Some [oldMessage, newMessage, revisedMessage]\<rparr>"
      helloFrame "''hello''" "''alice''" "''alice@alice.tmi.twitch.tv''" "[]"]
  by (simp add: eventEmmiter_def arg_at_def param_at_def channels_get_def roomClient_def
        helloFrame_def normalizeName_def slice0_def collection_get_def)


section \<open>Properties of the constructor and of the validation\<close>

text \<open>\<open>Object.keys\<close> lists every key; without array indices among them, in insertion
  order.\<close>

lemma set_keys: "set (keys obj) = fst ` set obj"
  by (auto simp: keys_def)

lemma keys_plain:
  "list_all (\<lambda>k. index_of_key k = None) (map fst obj) \<Longrightarrow> keys obj = map fst obj"
  by (simp add: keys_def list_all_iff)

text \<open>The collection's \<open>set\<close> as an update of the lookup.\<close>

lemma map_of_collection_set: "map_of (collection_set store k v) = (map_of store)(k \<mapsto> v)"
  by (induction store k v rule: collection_set.induct) (auto simp: fun_eq_iff)

lemma set_collection_set: "set (collection_set store k v) \<subseteq> insert (k, v) (set store)"
  by (induction store k v rule: collection_set.induct) auto

text \<open>The loop of the constructor: the flag is set as soon as there is a name, the
  store holds the room of every normalized name, and every room is stored under its own
  name, so that the search by name and the lookup by key agree.\<close>

lemma initChannels_flag: "snd (initChannels names (store, b)) = (b \<or> names \<noteq> [])"
  by (induction names arbitrary: store b) auto

lemma initChannels_map_of:
  "map_of (fst (initChannels names (store, b))) k =
     (if k \<in> normalizeName ` set names then Some (new_channel k) else map_of store k)"
  by (induction names arbitrary: store b) (auto simp: map_of_collection_set)

lemma initChannels_named:
  "\<forall>(k, ch) \<in> set store. name ch = k \<Longrightarrow>
   \<forall>(k, ch) \<in> set (fst (initChannels names (store, b))). name ch = k"
proof (induction names arbitrary: store b)
  case Nil
  then show ?case by simp
next
  case (Cons n names)
  have "\<forall>(k, ch) \<in> set (collection_set store (normalizeName n) (new_channel (normalizeName n))).
          name ch = k"
    using Cons.prems set_collection_set [of store "normalizeName n" "new_channel (normalizeName n)"]
    by (auto simp: new_channel_def)
  then show ?case using Cons.IH by simp
qed

lemma collection_find_name:
  "\<forall>(k, ch) \<in> set store. name ch = k \<Longrightarrow>
   collection_find (\<lambda>ch. name ch = key) store = map_of store key"
  by (induction store) auto

lemma normalizeName_sigil: "slice0 (normalizeName n) 1 = ''#''"
  by (cases n) (auto simp: normalizeName_def slice0_def)

lemma normalizeName_idem: "normalizeName (normalizeName n) = normalizeName n"
  using normalizeName_sigil [of n] by (simp add: normalizeName_def [of "normalizeName n"])

text \<open>The validation: what it may do before it throws, and what its outcome says.\<close>

lemma validateOptions_effects:
  "validateOptions D opts = (es, r) \<Longrightarrow> set es \<subseteq> {AutoEndLogActivate}"
  by (auto simp: validateOptions_def split: if_splits option.splits)

lemma validateOptions_Inr:
  "validateOptions D opts = (es, Inr u) \<Longrightarrow>
   es = [] \<and> recognized_valid opts \<and> find (\<lambda>k. k \<notin> set (keys D)) (keys opts) = None"
  by (auto simp: validateOptions_def recognized_valid_def split: if_splits option.splits)

lemma validateOptions_Inl:
  "validateOptions D opts = (es, Inl e) \<Longrightarrow> \<exists>msg. e = TypeError (Some msg)"
  by (auto simp: validateOptions_def split: if_splits option.splits)

lemma validateOptions_unknown:
  "recognized_valid opts \<Longrightarrow> find (\<lambda>k. k \<notin> set (keys D)) (keys opts) = Some k \<Longrightarrow>
   validateOptions D opts =
     ([AutoEndLogActivate], Inl (TypeError (Some (''The option: '' @ k @ '' is not a valid option.''))))"
  by (simp add: validateOptions_def recognized_valid_def)

text \<open>The two outcomes of the constructor.\<close>

lemma constructor_Inr:
  assumes "Client_constructor M D env given = (es, Inr c)"
  shows "\<exists>names. property (snd (M D given)) ''channels'' = JArr names
           \<and> channels c = fst (initChannels names ([], False))
           \<and> get_overridden c = snd (initChannels names ([], False))
           \<and> token c = (case map_of env ''CLIENT_TOKEN'' of Some v \<Rightarrow> JStr v | None \<Rightarrow> JNull)
           \<and> options c = fst (M D given)
           \<and> validateOptions D (fst (M D given)) = ([], Inr ())
           \<and> SLEEPTManagerCreated \<in> set es"
  using assms
  by (auto simp: Client_constructor_def Let_def dest: validateOptions_Inr
        split: prod.splits sum.splits js_value.splits)

lemma constructor_Inl:
  assumes "Client_constructor M D env given = (es, Inl e)"
  shows "SLEEPTManagerCreated \<notin> set es \<and> (\<exists>msg. e = TypeError msg)"
  using assms
  by (auto simp: Client_constructor_def Let_def
        dest: validateOptions_Inr validateOptions_Inl validateOptions_effects
        split: prod.splits sum.splits js_value.splits if_splits)

text \<open>
  C8: at construction no token has been supplied (the property has just been defined
  and is \<open>undefined\<close>), so the client's token is the environment value \<open>CLIENT_TOKEN\<close>
  when \<open>process.env\<close> has one, and \<open>null\<close> otherwise.
\<close>

theorem constructor_token:
  assumes "Client_constructor mergeDefault defaultOptions env given = (es, Inr c)"
  shows "token c = (case map_of env ''CLIENT_TOKEN'' of Some v \<Rightarrow> JStr v | None \<Rightarrow> JNull)"
  using constructor_Inr [OF assms] by blast

theorem constructor_token_witness:
  "(\<exists>es c. Client_constructor fillDefaults exampleDefaults [(''CLIENT_TOKEN'', ''oauth:abc'')] []
              = (es, Inr c) \<and> token c = JStr ''oauth:abc'')
   \<and> (\<exists>es c. Client_constructor fillDefaults exampleDefaults [(''HOME'', ''/root'')] []
              = (es, Inr c) \<and> token c = JNull)"
proof -
  obtain es c where a: "Client_constructor fillDefaults exampleDefaults [(''CLIENT_TOKEN'', ''oauth:abc'')] []
      = (es, Inr c)"
    by (simp add: Client_constructor_def fillDefaults_def exampleDefaults_def validateOptions_def
          property_def keys_plain index_of_key_def digit_def Let_def)
  obtain es' c' where b: "Client_constructor fillDefaults exampleDefaults [(''HOME'', ''/root'')] []
      = (es', Inr c')"
    by (simp add: Client_constructor_def fillDefaults_def exampleDefaults_def validateOptions_def
          property_def keys_plain index_of_key_def digit_def Let_def)
  from constructor_token [OF a] constructor_token [OF b] a b show ?thesis by auto
qed

text \<open>
  C6 as stated fails: with the room \<open>##x\<close> in the initial channel list, the room is
  stored and found under \<open>##x\<close>, and \<open>channels.get\<close> of that name without its leading
  \<open>#\<close>, \<open>#x\<close>, finds nothing: the lookup adds no sigil to a name that has one.
\<close>

theorem constructor_doubled_sigil:
  "Client_constructor fillDefaults exampleDefaults [] doubledOptions
     = ([LoggerCreated (JBool False), LogDebug ''Debug is active!'', SLEEPTManagerCreated],
        Inr doubledClient)
   \<and> channels_get doubledClient (Some ''##x'') = Inr (Some (new_channel ''##x''))
   \<and> channels_get doubledClient (Some ''#x'') = Inr None"
  by (simp add: Client_constructor_def fillDefaults_def exampleDefaults_def doubledOptions_def
        doubledClient_def validateOptions_def property_def keys_plain index_of_key_def digit_def
        Let_def normalizeName_def slice0_def channels_get_def new_channel_def)

text \<open>
  C6 (amended): for every room name \<open>n\<close> of the initial channel list, the room is stored
  under the normalized identifier, which starts with \<open>#\<close>, and \<open>channels.get\<close> returns
  that room for the name as listed, for the normalized identifier, and, when the listed
  name is \<open>#\<close> before a name that does not itself start with \<open>#\<close>, for that name
  without the \<open>#\<close>; for a name with no room under its normalized identifier the lookup
  returns the not-found indicator, and no error.
\<close>

theorem constructor_channels:
  assumes "Client_constructor mergeDefault defaultOptions env given = (es, Inr c)"
    and "property (snd (mergeDefault defaultOptions given)) ''channels'' = JArr names"
    and "n \<in> set names"
  shows "slice0 (normalizeName n) 1 = ''#''
       \<and> collection_get (channels c) (normalizeName n) = Some (new_channel (normalizeName n))
       \<and> name (new_channel (normalizeName n)) = normalizeName n
       \<and> channels_get c (Some n) = Inr (Some (new_channel (normalizeName n)))
       \<and> channels_get c (Some (normalizeName n)) = Inr (Some (new_channel (normalizeName n)))
       \<and> (\<forall>b. n = ''#'' @ b \<and> slice0 b 1 \<noteq> ''#''
              \<longrightarrow> channels_get c (Some b) = Inr (Some (new_channel (normalizeName n))))
       \<and> (\<forall>m. collection_get (channels c) (normalizeName m) = None
              \<longrightarrow> channels_get c (Some m) = Inr None)"
proof -
  from constructor_Inr [OF assms(1)] assms(2)
  have store: "channels c = fst (initChannels names ([], False))"
    and flag: "get_overridden c = snd (initChannels names ([], False))"
    by auto
  from flag assms(3) have over: "get_overridden c"
    by (auto simp: initChannels_flag)
  have named: "\<forall>(k, ch) \<in> set (channels c). name ch = k"
    unfolding store by (rule initChannels_named) simp
  have get: "channels_get c (Some m) = Inr (map_of (channels c) (normalizeName m))" for m
    using over by (simp add: channels_get_def collection_find_name [OF named])
  have stored: "map_of (channels c) (normalizeName n) = Some (new_channel (normalizeName n))"
    unfolding store using assms(3) by (simp add: initChannels_map_of)
  have bare: "normalizeName b = normalizeName n" if "n = ''#'' @ b" "slice0 b 1 \<noteq> ''#''" for b
    using that by (simp add: normalizeName_def slice0_def)
  have c1: "collection_get (channels c) (normalizeName n) = Some (new_channel (normalizeName n))"
    using stored by (simp add: collection_get_def)
  have c2: "name (new_channel (normalizeName n)) = normalizeName n"
    by (simp add: new_channel_def)
  have c3: "channels_get c (Some n) = Inr (Some (new_channel (normalizeName n)))"
    by (simp only: get stored)
  have c4: "channels_get c (Some (normalizeName n)) = Inr (Some (new_channel (normalizeName n)))"
    by (simp only: get normalizeName_idem stored)
  have c5: "channels_get c (Some b) = Inr (Some (new_channel (normalizeName n)))"
    if "n = ''#'' @ b \<and> slice0 b 1 \<noteq> ''#''" for b
  proof -
    from that have "normalizeName b = normalizeName n" by (simp add: bare)
    with stored show ?thesis by (simp only: get)
  qed
  have c6: "channels_get c (Some m) = Inr None"
    if "collection_get (channels c) (normalizeName m) = None" for m
    using that by (simp add: get collection_get_def)
  from normalizeName_sigil [of n] c1 c2 c3 c4 c5 c6 show ?thesis by blast
qed

theorem constructor_channels_witness:
  "\<exists>es c. Client_constructor fillDefaults exampleDefaults [] [(''channels'', JArr [''room'', ''#lobby''])]
             = (es, Inr c)
     \<and> channels c = [(''#room'', new_channel ''#room''), (''#lobby'', new_channel ''#lobby'')]
     \<and> channels_get c (Some ''room'') = Inr (Some (new_channel ''#room''))
     \<and> channels_get c (Some ''#room'') = Inr (Some (new_channel ''#room''))
     \<and> channels_get c (Some ''lobby'') = Inr (Some (new_channel ''#lobby''))
     \<and> channels_get c (Some ''nowhere'') = Inr None"
proof -
  let ?given = "[(''channels'', JArr [''room'', ''#lobby''])]"
  obtain es c where a: "Client_constructor fillDefaults exampleDefaults [] ?given = (es, Inr c)"
    and ch: "channels c = [(''#room'', new_channel ''#room''), (''#lobby'', new_channel ''#lobby'')]"
    by (simp add: Client_constructor_def fillDefaults_def exampleDefaults_def validateOptions_def
          property_def keys_plain index_of_key_def digit_def Let_def normalizeName_def slice0_def)
  have b: "property (snd (fillDefaults exampleDefaults ?given)) ''channels'' = JArr [''room'', ''#lobby'']"
    by (simp add: fillDefaults_def property_def Let_def)
  have r: "''room'' \<in> set [''room'', ''#lobby'']" and l: "''#lobby'' \<in> set [''room'', ''#lobby'']"
    by simp_all
  have none: "collection_get (channels c) (normalizeName ''nowhere'') = None"
    by (simp add: ch collection_get_def normalizeName_def slice0_def)
  from constructor_channels [OF a b r] constructor_channels [OF a b l] none a ch
  show ?thesis by (simp add: normalizeName_def slice0_def)
qed

text \<open>
  C9: for a client constructed with an empty initial channel list the normalizing
  \<open>get\<close> is not installed: the store is empty and, whatever is stored later, the lookup
  is the collection's keyed \<open>get\<close>. A room stored under \<open>#b\<close> is found under \<open>#b\<close>, and
  the lookup of the bare name \<open>b\<close> finds nothing.
\<close>

theorem constructor_no_channels:
  assumes "Client_constructor mergeDefault defaultOptions env given = (es, Inr c)"
    and "property (snd (mergeDefault defaultOptions given)) ''channels'' = JArr []"
  shows "\<not> get_overridden c \<and> channels c = []
       \<and> (\<forall>store key. channels_get (c\<lparr>channels := store\<rparr>) (Some key) = Inr (collection_get store key))
       \<and> (\<forall>b room. slice0 b 1 \<noteq> ''#'' \<longrightarrow>
             channels_get (c\<lparr>channels := collection_set (channels c) (''#'' @ b) room\<rparr>) (Some b)
               = Inr None
             \<and> channels_get (c\<lparr>channels := collection_set (channels c) (''#'' @ b) room\<rparr>)
                 (Some (''#'' @ b)) = Inr (Some room))"
proof -
  from constructor_Inr [OF assms(1)] assms(2)
  have flag: "\<not> get_overridden c" and store: "channels c = []"
    by auto
  from flag have get: "channels_get (c\<lparr>channels := store\<rparr>) (Some key) = Inr (collection_get store key)"
    for store key
    by (simp add: channels_get_def)
  show ?thesis
    using flag store by (simp add: get collection_get_def)
qed

theorem constructor_no_channels_witness:
  "\<exists>es c. Client_constructor fillDefaults exampleDefaults [] [(''channels'', JArr [])] = (es, Inr c)
     \<and> \<not> get_overridden c
     \<and> channels_get (c\<lparr>channels := collection_set (channels c) ''#room'' (new_channel ''#room'')\<rparr>)
         (Some ''room'') = Inr None
     \<and> channels_get (c\<lparr>channels := collection_set (channels c) ''#room'' (new_channel ''#room'')\<rparr>)
         (Some ''#room'') = Inr (Some (new_channel ''#room''))"
proof -
  let ?given = "[(''channels'', JArr [])]"
  obtain es c where a: "Client_constructor fillDefaults exampleDefaults [] ?given = (es, Inr c)"
    by (simp add: Client_constructor_def fillDefaults_def exampleDefaults_def validateOptions_def
          property_def keys_plain index_of_key_def digit_def Let_def)
  have b: "property (snd (fillDefaults exampleDefaults ?given)) ''channels'' = JArr []"
    by (simp add: fillDefaults_def property_def Let_def)
  have bare: "slice0 ''room'' 1 \<noteq> ''#''"
    by (simp add: slice0_def)
  from constructor_no_channels [OF a b] bare a show ?thesis
    by (metis append_Cons append_Nil)
qed

text \<open>
  C5 (amended): when \<open>mergeDefault\<close> keeps what is given, an options object with a
  non-numeric \<open>messageCacheLifetime\<close>, \<open>messageCacheMaxSize\<close>, \<open>messageSweepInterval\<close> or
  \<open>retryLimit\<close>, a non-boolean \<open>fetchAllChatters\<close>, a non-array \<open>channels\<close>, or a
  \<^emph>\<open>truthy\<close> non-array \<open>disabledEvents\<close> makes the constructor throw a \<open>TypeError\<close>, and
  the session manager has not been created by then.
\<close>

theorem constructor_invalid:
  assumes "keeps_given mergeDefault defaultOptions given"
    and "k \<in> set (keys given)"
    and "invalid k (property given k)"
  shows "\<exists>es msg. Client_constructor mergeDefault defaultOptions env given = (es, Inl (TypeError msg))
           \<and> SLEEPTManagerCreated \<notin> set es"
proof -
  obtain merged given' where m: "mergeDefault defaultOptions given = (merged, given')"
    by (cases "mergeDefault defaultOptions given")
  from assms(1,2) m have kept: "property merged k = property given k"
    "property given' k = property given k"
    by (auto simp: keeps_given_def list_all_iff)
  obtain es r where res: "Client_constructor mergeDefault defaultOptions env given = (es, r)"
    by (cases "Client_constructor mergeDefault defaultOptions env given")
  show ?thesis
  proof (cases r)
    case (Inl e)
    with res constructor_Inl [of mergeDefault defaultOptions env given es e]
    show ?thesis by auto
  next
    case (Inr c)
    with res have ok: "Client_constructor mergeDefault defaultOptions env given = (es, Inr c)"
      by simp
    from constructor_Inr [OF ok] m
    obtain names where arr: "property given' ''channels'' = JArr names"
      and val: "validateOptions defaultOptions merged = ([], Inr ())"
      by auto
    from validateOptions_Inr [OF val] have "recognized_valid merged" by simp
    then have rv: "is_number (property merged ''messageCacheMaxSize'')"
      "is_number (property merged ''messageCacheLifetime'')"
      "is_number (property merged ''messageSweepInterval'')"
      "is_number (property merged ''retryLimit'')"
      "is_boolean (property merged ''fetchAllChatters'')"
      "\<not> (truthy (property merged ''disabledEvents'') \<and> \<not> is_array (property merged ''disabledEvents''))"
      by (simp_all add: recognized_valid_def)
    have "is_array (property given' ''channels'')"
      by (simp add: arr)
    with assms(3) kept rv have False
      unfolding invalid_def by auto
    then show ?thesis ..
  qed
qed

theorem constructor_invalid_witness:
  "Client_constructor fillDefaults exampleDefaults []
       [(''channels'', JArr []), (''messageCacheLifetime'', JStr ''forever'')]
     = ([], Inl (TypeError (Some ''The messageCacheLifetime option must be a number.'')))
   \<and> Client_constructor fillDefaults exampleDefaults [] [(''channels'', JNum 0)]
     = ([LoggerCreated (JBool False), LogDebug ''Debug is active!'', AutoEndLogActivate],
        Inl (TypeError None))"
proof -
  let ?a = "[(''channels'', JArr []), (''messageCacheLifetime'', JStr ''forever'')]"
  let ?b = "[(''channels'', JNum 0)]"
  have ka: "keeps_given fillDefaults exampleDefaults ?a" and kb: "keeps_given fillDefaults exampleDefaults ?b"
    by (simp_all add: keeps_given_def fillDefaults_def exampleDefaults_def property_def keys_plain index_of_key_def digit_def Let_def)
  have ia: "invalid ''messageCacheLifetime'' (property ?a ''messageCacheLifetime'')"
    and ib: "invalid ''channels'' (property ?b ''channels'')"
    by (simp_all add: invalid_def property_def)
  have ma: "''messageCacheLifetime'' \<in> set (keys ?a)" and mb: "''channels'' \<in> set (keys ?b)"
    by (simp_all add: keys_plain index_of_key_def digit_def)
  from constructor_invalid [OF ka ma ia, of "[]"] constructor_invalid [OF kb mb ib, of "[]"]
  show ?thesis
    by (simp add: Client_constructor_def fillDefaults_def exampleDefaults_def validateOptions_def
          property_def keys_plain index_of_key_def digit_def Let_def)
qed

text \<open>
  C5 as stated fails: \<open>disabledEvents: false\<close> is not an array, the guard
  \<open>options.disabledEvents && ...\<close> lets it pass, and the client is constructed, session
  manager included.
\<close>

theorem constructor_falsy_disabledEvents:
  "keeps_given fillDefaults exampleDefaults falsyEvents
   \<and> claimed_invalid ''disabledEvents'' (property falsyEvents ''disabledEvents'')
   \<and> Client_constructor fillDefaults exampleDefaults [] falsyEvents
     = ([LoggerCreated (JBool False), LogDebug ''Debug is active!'', SLEEPTManagerCreated],
        Inr \<lparr>options = falsyEvents, token = JNull, user = JNull, readyAt = JNull,
             autoLogEnd = JBool False, channels = [(''#room'', new_channel ''#room'')],
             get_overridden = True\<rparr>)"
  by (simp add: keeps_given_def claimed_invalid_def Client_constructor_def fillDefaults_def
        exampleDefaults_def falsyEvents_def validateOptions_def property_def keys_plain index_of_key_def digit_def Let_def
        normalizeName_def slice0_def)

text \<open>A list with an element outside \<open>P\<close> has a first such element.\<close>

lemma find_unknown:
  assumes "k \<in> set ks" and "\<not> P k"
  shows "\<exists>k'. find (\<lambda>K. \<not> P K) ks = Some k' \<and> k' \<in> set ks \<and> \<not> P k'"
proof (cases "find (\<lambda>K. \<not> P K) ks")
  case None
  with assms show ?thesis by (auto simp: find_None_iff)
next
  case (Some k')
  then show ?thesis by (auto simp: find_Some_iff)
qed

text \<open>
  C10 as stated fails: \<open>tokn\<close> is a key that the defaults do not have, and the
  \<open>TypeError\<close> names \<open>aaa\<close> when that unknown key comes first, \<open>retryLimit\<close> when that
  option is no number (its check runs before the keys are walked), and \<open>7\<close> when that
  key is there too (\<open>Object.keys\<close> lists an array index before the other keys).
\<close>

theorem constructor_names_another_option:
  "keeps_given fillDefaults exampleDefaults twoUnknown
   \<and> ''tokn'' \<in> set (keys twoUnknown) \<and> ''tokn'' \<notin> set (keys exampleDefaults)
   \<and> Client_constructor fillDefaults exampleDefaults [] twoUnknown
       = ([AutoEndLogActivate], Inl (TypeError (Some ''The option: aaa is not a valid option.'')))
   \<and> keeps_given fillDefaults exampleDefaults unknownAndInvalid
   \<and> ''tokn'' \<in> set (keys unknownAndInvalid)
   \<and> Client_constructor fillDefaults exampleDefaults [] unknownAndInvalid
       = ([], Inl (TypeError (Some ''The retryLimit  options must be a number.'')))
   \<and> keeps_given fillDefaults exampleDefaults unknownAndIndex
   \<and> ''tokn'' \<in> set (keys unknownAndIndex)
   \<and> Client_constructor fillDefaults exampleDefaults [] unknownAndIndex
       = ([AutoEndLogActivate], Inl (TypeError (Some ''The option: 7 is not a valid option.'')))"
  by (simp add: keeps_given_def Client_constructor_def fillDefaults_def exampleDefaults_def
        twoUnknown_def unknownAndInvalid_def unknownAndIndex_def validateOptions_def property_def
        keys_def index_of_key_def digit_def Let_def)

text \<open>
  C10 (amended): when \<open>mergeDefault\<close> keeps what is given, an options object with a key
  that the default option set does not have makes the constructor throw a \<open>TypeError\<close>
  before the session manager is created. When all recognized options are valid, the
  message is \<open>The option: k' is not a valid option.\<close> for the first key \<open>k'\<close>, in the
  order of \<open>Object.keys\<close>, that the defaults lack: the key in question when it is the
  only such key.
\<close>

theorem constructor_unknown_option:
  assumes "keeps_given mergeDefault defaultOptions given"
    and "k \<in> set (keys given)"
    and "k \<notin> set (keys defaultOptions)"
  shows "\<exists>es msg. Client_constructor mergeDefault defaultOptions env given = (es, Inl (TypeError msg))
           \<and> SLEEPTManagerCreated \<notin> set es
           \<and> (recognized_valid (fst (mergeDefault defaultOptions given)) \<longrightarrow>
                (\<exists>k'. find (\<lambda>K. K \<notin> set (keys defaultOptions))
                         (keys (fst (mergeDefault defaultOptions given))) = Some k'
                   \<and> k' \<notin> set (keys defaultOptions)
                   \<and> msg = Some (''The option: '' @ k' @ '' is not a valid option.'')
                   \<and> ((\<forall>K \<in> set (keys (fst (mergeDefault defaultOptions given))).
                          K \<notin> set (keys defaultOptions) \<longrightarrow> K = k) \<longrightarrow> k' = k)))"
proof -
  obtain merged given' where m: "mergeDefault defaultOptions given = (merged, given')"
    by (cases "mergeDefault defaultOptions given")
  from assms(1,2) m have "k \<in> set (keys merged)"
    by (auto simp: keeps_given_def list_all_iff)
  from find_unknown [OF this, of "\<lambda>K. K \<in> set (keys defaultOptions)"] assms(3)
  obtain k' where f: "find (\<lambda>K. K \<notin> set (keys defaultOptions)) (keys merged) = Some k'"
    and k': "k' \<in> set (keys merged)" "k' \<notin> set (keys defaultOptions)"
    by auto
  obtain es r where v: "validateOptions defaultOptions merged = (es, r)"
    by (cases "validateOptions defaultOptions merged")
  have "\<exists>e. r = Inl e"
  proof (cases r)
    case (Inr u)
    with v validateOptions_Inr [of defaultOptions merged es u] f show ?thesis by simp
  qed simp
  then obtain e where r: "r = Inl e" ..
  from validateOptions_Inl [of defaultOptions merged es e] v r
  obtain wording where e: "e = TypeError (Some wording)" by auto
  have res: "Client_constructor mergeDefault defaultOptions env given = (es, Inl (TypeError (Some wording)))"
    using m v r e by (simp add: Client_constructor_def)
  have quiet: "SLEEPTManagerCreated \<notin> set es"
    using validateOptions_effects [OF v] by auto
  have named: "wording = ''The option: '' @ k' @ '' is not a valid option.''"
    if "recognized_valid merged"
    using validateOptions_unknown [OF that f] v r e by simp
  have only: "k' = k" if "\<forall>K \<in> set (keys merged). K \<notin> set (keys defaultOptions) \<longrightarrow> K = k"
    using that k' by blast
  show ?thesis
    using res quiet named only f k'(2) by (simp add: m)
qed

theorem constructor_unknown_option_witness:
  "Client_constructor fillDefaults exampleDefaults []
       [(''channels'', JArr [''room'']), (''tokn'', JStr ''oauth:abc'')]
     = ([AutoEndLogActivate], Inl (TypeError (Some ''The option: tokn is not a valid option.'')))"
proof -
  let ?g = "[(''channels'', JArr [''room'']), (''tokn'', JStr ''oauth:abc'')]"
  have k: "keeps_given fillDefaults exampleDefaults ?g"
    by (simp add: keeps_given_def fillDefaults_def exampleDefaults_def property_def keys_plain index_of_key_def digit_def Let_def)
  have m: "''tokn'' \<in> set (keys ?g)" and u: "''tokn'' \<notin> set (keys exampleDefaults)"
    by (simp_all add: keys_plain index_of_key_def digit_def exampleDefaults_def)
  from constructor_unknown_option [OF k m u, of "[]"] show ?thesis
    by (simp add: Client_constructor_def fillDefaults_def exampleDefaults_def validateOptions_def
          property_def keys_plain index_of_key_def digit_def Let_def)
qed

end
